theory Spec2Isabelle
  imports Complex_Main
begin

section \<open>Configuration\<close>

text \<open>
  The class \<^verbatim>\<open>Config\<close> of \<^verbatim>\<open>comprehensive_30sec_generator.py\<close> holds the
  planning and encoding parameters as class attributes. The planner and the encoder read
  them at every call, so the embedding passes them as a record; the constant \<open>Config\<close>
  below carries the values written in the source.

  Python numbers are modelled as rationals. In the planner every start time is an integer
  (a multiple of the step, at most 2475 with the source's values) and the only operation
  on the possibly fractional video duration is one subtraction of such an integer from a
  duration less than 30 seconds beyond it, which binary floating point performs exactly;
  all comparisons between integers and floats are exact in Python as well. In the encoder
  the rationals idealise the one float subtraction of the fade-out offset, which returns
  the double nearest to the rational computed here. The report takes the float operations
  as parameters.
\<close>

record config =
  CLIP_DURATION :: rat
  OVERLAP_DURATION :: rat
  MIN_CLIP_DURATION :: rat
  AUDIO_FADE_DURATION :: rat
  MAX_CLIPS_PER_VIDEO :: int

definition Config :: config where
  "Config = \<lparr> CLIP_DURATION = 30, OVERLAP_DURATION = 5, MIN_CLIP_DURATION = 25,
              AUDIO_FADE_DURATION = 1 / 5, MAX_CLIPS_PER_VIDEO = 100 \<rparr>"

definition OUTPUT_DIR :: string where
  "OUTPUT_DIR = ''all_30sec_shorts''"

section \<open>Segment planner\<close>

text \<open>One entry of the list returned by \<^verbatim>\<open>calculate_all_clip_segments\<close> (a dict in the source).\<close>

record segment =
  start_time :: rat
  end_time :: rat
  duration :: rat
  clip_number :: int
  is_final_clip :: bool

definition step_size :: "config \<Rightarrow> rat" where
  "step_size cfg = CLIP_DURATION cfg - OVERLAP_DURATION cfg"

text \<open>
  The \<^verbatim>\<open>while\<close> loop of \<^verbatim>\<open>calculate_all_clip_segments\<close>, with its three loop variables
  \<^verbatim>\<open>start_time\<close> (here \<open>start\<close>), \<^verbatim>\<open>clip_count\<close> (here \<open>cnt\<close>) and \<^verbatim>\<open>segments\<close>.
  The \<^verbatim>\<open>break\<close> of the truncation branch is the non-recursive branch. The function has no
  \<^verbatim>\<open>raise\<close> and no operation that can fail on numbers, so it returns a plain list.
\<close>

function segments_loop :: "config \<Rightarrow> rat \<Rightarrow> rat \<Rightarrow> int \<Rightarrow> segment list \<Rightarrow> segment list" where
  "segments_loop cfg video_duration start cnt segments =
     (if start < video_duration \<and> cnt < MAX_CLIPS_PER_VIDEO cfg then
        (if start + CLIP_DURATION cfg > video_duration then
           (if video_duration - start \<ge> MIN_CLIP_DURATION cfg then
              segments @ [\<lparr> start_time = start, end_time = video_duration,
                            duration = video_duration - start, clip_number = cnt + 1,
                            is_final_clip = True \<rparr>]
            else segments)
         else
           segments_loop cfg video_duration (start + step_size cfg) (cnt + 1)
             (segments @ [\<lparr> start_time = start, end_time = start + CLIP_DURATION cfg,
                             duration = CLIP_DURATION cfg, clip_number = cnt + 1,
                             is_final_clip = False \<rparr>]))
      else segments)"
  by pat_completeness auto
termination
  by (relation "measure (\<lambda>(cfg, video_duration, start, cnt, segments).
         nat (MAX_CLIPS_PER_VIDEO cfg - cnt))") auto

definition calculate_all_clip_segments :: "config \<Rightarrow> rat \<Rightarrow> segment list" where
  "calculate_all_clip_segments cfg video_duration = segments_loop cfg video_duration 0 0 []"

text \<open>
  The estimate of \<^verbatim>\<open>generate_shorts\<close>:
  \<^verbatim>\<open>min(int(video_duration / step_size) + 1, Config.MAX_CLIPS_PER_VIDEO)\<close>.
  Python's \<^verbatim>\<open>int\<close> truncates towards zero. A zero step raises ZeroDivisionError, which
  the bare \<^verbatim>\<open>except\<close> around the estimate swallows: no estimate is published (\<open>None\<close>).
\<close>

definition py_int :: "rat \<Rightarrow> int" where
  "py_int x = (if 0 \<le> x then \<lfloor>x\<rfloor> else \<lceil>x\<rceil>)"

definition expected_clips :: "config \<Rightarrow> rat \<Rightarrow> int option" where
  "expected_clips cfg video_duration =
     (if step_size cfg = 0 then None
      else Some (min (py_int (video_duration / step_size cfg) + 1) (MAX_CLIPS_PER_VIDEO cfg)))"

section \<open>Clip encoder\<close>

text \<open>
  The argument list that \<^verbatim>\<open>_create_30sec_clip\<close> hands to \<^verbatim>\<open>subprocess.run\<close>. The offsets
  \<^verbatim>\<open>-ss\<close> and \<^verbatim>\<open>-t\<close> and the members of the \<^verbatim>\<open>-af\<close> chain that carry numbers are kept
  as numbers (the source prints them into the argument strings); the fixed encoding
  options are kept as the strings of the source.
\<close>

datatype fade_type = Fade_in | Fade_out

datatype audio_filter =
    Afade fade_type rat rat
  | Highpass rat
  | Lowpass rat
  | Acompressor string
  | Loudnorm string

record ffmpeg_cmd =
  cmd_ss :: rat
  cmd_input :: string
  cmd_t :: rat
  cmd_options :: "string list"
  cmd_af :: "audio_filter list"
  cmd_output :: string

definition encoding_options :: "string list" where
  "encoding_options =
     [''-c:v'', ''libx264'', ''-preset'', ''fast'', ''-crf'', ''18'', ''-profile:v'', ''high'',
      ''-level'', ''4.0'', ''-pix_fmt'', ''yuv420p'', ''-movflags'', ''+faststart'',
      ''-c:a'', ''aac'', ''-b:a'', ''192k'', ''-ar'', ''44100'', ''-ac'', ''2'']"

definition ffmpeg_command :: "config \<Rightarrow> string \<Rightarrow> segment \<Rightarrow> string \<Rightarrow> ffmpeg_cmd" where
  "ffmpeg_command cfg video_path seg output_path =
     \<lparr> cmd_ss = start_time seg,
       cmd_input = video_path,
       cmd_t = duration seg,
       cmd_options = encoding_options,
       cmd_af =
         [Afade Fade_in 0 (AUDIO_FADE_DURATION cfg),
          Afade Fade_out (duration seg - AUDIO_FADE_DURATION cfg) (AUDIO_FADE_DURATION cfg),
          Highpass 80,
          Lowpass 12000,
          Acompressor ''threshold=0.1:ratio=3:attack=5:release=50'',
          Loudnorm ''I=-16:LRA=11:TP=-1.5''],
       cmd_output = output_path \<rparr>"

text \<open>The start offsets of the fade-out filters of a chain, read back from it.\<close>

fun fade_out_starts :: "audio_filter list \<Rightarrow> rat list" where
  "fade_out_starts [] = []"
| "fade_out_starts (Afade Fade_out st d # fs) = st # fade_out_starts fs"
| "fade_out_starts (f # fs) = fade_out_starts fs"

text \<open>
  What one run of the external transcoder does, as far as \<^verbatim>\<open>_create_30sec_clip\<close> observes
  it: \<^verbatim>\<open>subprocess.run\<close> returns with a return code, or raises \<^verbatim>\<open>TimeoutExpired\<close> after
  180 seconds, or raises something else; afterwards the output file exists or not, and has
  a size in bytes.
\<close>

datatype run_result = Completed int | TimeoutExpired | OtherException

record encode_response =
  run :: run_result
  file_exists :: bool
  file_size :: nat

type_synonym transcoder = "ffmpeg_cmd \<Rightarrow> encode_response"

definition create_30sec_clip :: "config \<Rightarrow> transcoder \<Rightarrow> string \<Rightarrow> segment \<Rightarrow> string \<Rightarrow> bool" where
  "create_30sec_clip cfg transcode video_path seg output_path =
     (let cmd = ffmpeg_command cfg video_path seg output_path;
          response = transcode cmd
      in case run response of
           Completed returncode \<Rightarrow>
             (if returncode = 0 \<and> file_exists response then
                (if file_size response > 500000 then True else False)
              else False)
         | TimeoutExpired \<Rightarrow> False
         | OtherException \<Rightarrow> False)"

section \<open>Batch runner\<close>

text \<open>
  \<^verbatim>\<open>os.path.join\<close> of two components, as \<^verbatim>\<open>posixpath\<close> defines it: an absolute second
  component replaces the first, and no separator is added to an empty first component or
  to one that ends with the separator.
\<close>

definition os_path_join :: "string \<Rightarrow> string \<Rightarrow> string" where
  "os_path_join a b =
     (if take 1 b = ''/'' then b
      else if a = [] \<or> drop (length a - 1) a = ''/'' then a @ b
      else a @ ''/'' @ b)"

text \<open>\<^verbatim>\<open>_sanitize_filename\<close>: replace the invalid characters, cut to 100, strip dots and spaces.\<close>

definition invalid_chars :: string where
  "invalid_chars = ''<>:'' @ [char_of (34::nat)] @ ''/'' @ [char_of (92::nat)] @ ''|?*''"

definition strip :: "string \<Rightarrow> string \<Rightarrow> string" where
  "strip chars s =
     rev (dropWhile (\<lambda>c. c \<in> set chars) (rev (dropWhile (\<lambda>c. c \<in> set chars) s)))"

definition sanitize_filename :: "string \<Rightarrow> string" where
  "sanitize_filename filename =
     strip ''. '' (take 100 (map (\<lambda>c. if c \<in> set invalid_chars then CHR ''_'' else c) filename))"

text \<open>One entry of \<^verbatim>\<open>created_clips\<close>; the keys shared with a segment carry the prefix \<open>c_\<close>.\<close>

record created_clip =
  path :: string
  c_clip_number :: int
  c_start_time :: rat
  c_end_time :: rat
  c_duration :: rat
  filename :: string
  size_mb :: rat

text \<open>
  The \<^verbatim>\<open>for\<close> loop of \<^verbatim>\<open>create_all_30sec_clips\<close> over \<^verbatim>\<open>enumerate(segments)\<close>. The
  parameter \<open>format_filename\<close> stands for the f-string that prints the clean title, the
  clip number (\<^verbatim>\<open>:03d\<close>) and the start time (\<^verbatim>\<open>:.0f\<close>); \<open>world i\<close> is the transcoder as it
  answers the call made for the entry at index \<open>i\<close>. The file is taken not to change
  between the size check of \<^verbatim>\<open>_create_30sec_clip\<close> and the \<^verbatim>\<open>os.path.getsize\<close> of the loop
  body. Every exception of the body is caught by the loop's own
  \<^verbatim>\<open>except Exception: continue\<close>, and the encoder turns its own into \<open>False\<close>, so the loop
  returns a list in every case. The progress callback writes the progress record only and
  is left out of the returned value.
\<close>

definition clip_entry :: "(string \<Rightarrow> int \<Rightarrow> rat \<Rightarrow> string) \<Rightarrow> string \<Rightarrow> segment \<Rightarrow> nat \<Rightarrow> created_clip" where
  "clip_entry format_filename clean_title seg size_bytes =
     (let output_filename = format_filename clean_title (clip_number seg) (start_time seg);
          output_path = os_path_join OUTPUT_DIR output_filename
      in \<lparr> path = output_path, c_clip_number = clip_number seg,
            c_start_time = start_time seg, c_end_time = end_time seg,
            c_duration = duration seg, filename = output_filename,
            size_mb = of_nat size_bytes / (1024 * 1024) \<rparr>)"

fun clips_loop :: "config \<Rightarrow> (string \<Rightarrow> int \<Rightarrow> rat \<Rightarrow> string) \<Rightarrow> (nat \<Rightarrow> transcoder)
    \<Rightarrow> string \<Rightarrow> string \<Rightarrow> nat \<Rightarrow> segment list \<Rightarrow> created_clip list \<Rightarrow> created_clip list" where
  "clips_loop cfg format_filename world video_path clean_title i [] created_clips = created_clips"
| "clips_loop cfg format_filename world video_path clean_title i (seg # segments) created_clips =
     (let output_filename = format_filename clean_title (clip_number seg) (start_time seg);
          output_path = os_path_join OUTPUT_DIR output_filename;
          success = create_30sec_clip cfg (world i) video_path seg output_path
      in clips_loop cfg format_filename world video_path clean_title (Suc i) segments
           (if success then
              created_clips @
                [clip_entry format_filename clean_title seg
                   (file_size (world i (ffmpeg_command cfg video_path seg output_path)))]
            else created_clips))"

text \<open>
  \<^verbatim>\<open>create_all_30sec_clips\<close>: \<open>probe\<close> is the duration read through \<^verbatim>\<open>VideoFileClip\<close>,
  \<open>None\<close> when reading it raises (the function then returns the empty list).
\<close>

definition create_all_30sec_clips :: "config \<Rightarrow> (string \<Rightarrow> int \<Rightarrow> rat \<Rightarrow> string) \<Rightarrow> (nat \<Rightarrow> transcoder)
    \<Rightarrow> rat option \<Rightarrow> string \<Rightarrow> string \<Rightarrow> created_clip list" where
  "create_all_30sec_clips cfg format_filename world probe video_path title =
     (case probe of
        None \<Rightarrow> []
      | Some video_duration \<Rightarrow>
          (let segments = calculate_all_clip_segments cfg video_duration
           in if segments = [] then []
              else clips_loop cfg format_filename world video_path (sanitize_filename title)
                     0 segments []))"

section \<open>Report builder\<close>

datatype py_error = ZeroDivisionError | TypeError | OSError

text \<open>
  The report computes with Python floats: \<^verbatim>\<open>/\<close>, \<^verbatim>\<open>*\<close>, \<^verbatim>\<open>round(x, 2)\<close> and \<^verbatim>\<open>sum\<close> each
  round their result. These four operations of the interpreter are parameters of the
  model (a record \<open>float_ops\<close>), so that nothing below depends on how they round. A number
  is the rational it denotes, whether Python holds it as an \<^verbatim>\<open>int\<close> or as a \<^verbatim>\<open>float\<close>.
  Division by zero raises before the operation is reached.
\<close>

record float_ops =
  fl_truediv :: "rat \<Rightarrow> rat \<Rightarrow> rat"
  fl_mul :: "rat \<Rightarrow> rat \<Rightarrow> rat"
  fl_round2 :: "rat \<Rightarrow> rat"
  fl_sum :: "rat list \<Rightarrow> rat"

definition py_truediv :: "float_ops \<Rightarrow> rat \<Rightarrow> rat \<Rightarrow> py_error + rat" where
  "py_truediv ops a b = (if b = 0 then Inl ZeroDivisionError else Inr (fl_truediv ops a b))"

text \<open>
  \<^verbatim>\<open>round(v, 2)\<close>, where \<open>v\<close> is the \<^verbatim>\<open>int\<close> of the \<^verbatim>\<open>else\<close> branch (\<open>Inl\<close>; rounding an
  \<^verbatim>\<open>int\<close> to two decimals returns it) or the \<^verbatim>\<open>float\<close> of the other branch (\<open>Inr\<close>).
\<close>

definition py_round2 :: "float_ops \<Rightarrow> int + rat \<Rightarrow> rat" where
  "py_round2 ops v = (case v of Inl n \<Rightarrow> of_int n | Inr x \<Rightarrow> fl_round2 ops x)"

text \<open>
  The operations as CPython performs them on IEEE 754 binary64 numbers, for results in
  the finite range (overflow to infinity is not modelled): \<open>to_double\<close> rounds a rational
  to the nearest double, a tie to the even mantissa, with the exponent bounded below for
  subnormal numbers; \<^verbatim>\<open>round(x, 2)\<close> rounds the exact value of \<open>x\<close> to two decimals, a tie
  to even, and returns the double nearest to that decimal; \<^verbatim>\<open>sum\<close> adds from the left,
  which is what CPython computes when the addends are integers below \<open>2^53\<close> followed by
  at most one float (later versions compensate longer sums of floats).
\<close>

definition round_half_even :: "rat \<Rightarrow> int" where
  "round_half_even x =
     (let f = \<lfloor>x\<rfloor>; r = x - of_int f
      in if r < 1 / 2 then f else if 1 / 2 < r then f + 1 else if even f then f else f + 1)"

function bit_length :: "int \<Rightarrow> int" where
  "bit_length n = (if n \<le> 0 then 0 else 1 + bit_length (n div 2))"
  by pat_completeness auto
termination
  by (relation "measure nat") auto

definition pow2 :: "int \<Rightarrow> rat" where
  "pow2 e = (if 0 \<le> e then 2 ^ nat e else 1 / 2 ^ nat (- e))"

definition ilog2 :: "rat \<Rightarrow> int" where
  "ilog2 x =
     (let k = bit_length (fst (quotient_of \<bar>x\<bar>)) - bit_length (snd (quotient_of \<bar>x\<bar>))
      in if pow2 k \<le> \<bar>x\<bar> then k else k - 1)"

definition to_double :: "rat \<Rightarrow> rat" where
  "to_double x =
     (if x = 0 then 0
      else let e = max (ilog2 x - 52) (- 1074)
           in of_int (round_half_even (x / pow2 e)) * pow2 e)"

definition binary64 :: float_ops where
  "binary64 =
     \<lparr> fl_truediv = (\<lambda>a b. to_double (a / b)),
       fl_mul = (\<lambda>a b. to_double (a * b)),
       fl_round2 = (\<lambda>x. to_double (of_int (round_half_even (x * 100)) / 100)),
       fl_sum = (\<lambda>xs. foldl (\<lambda>acc x. to_double (acc + x)) 0 xs) \<rparr>"

text \<open>
  A key of the \<^verbatim>\<open>metadata\<close> dict: absent, present with the value \<^verbatim>\<open>None\<close> (as
  \<^verbatim>\<open>download_video\<close> stores it when the extractor reports none), or present with a value.
  \<open>dict_get\<close> is \<^verbatim>\<open>.get(key, default)\<close>, its \<open>None\<close> being Python's \<^verbatim>\<open>None\<close>.
\<close>

datatype 'a dict_value = Absent | Py_None | Value 'a

definition dict_get :: "'a dict_value \<Rightarrow> 'a \<Rightarrow> 'a option" where
  "dict_get v dflt = (case v of Absent \<Rightarrow> Some dflt | Py_None \<Rightarrow> None | Value x \<Rightarrow> Some x)"

record metadata =
  md_title :: "string dict_value"
  md_duration :: "rat dict_value"
  md_uploader :: "string dict_value"

text \<open>The report dict, its two nested dicts flattened; a \<open>None\<close> title is JSON's null.\<close>

record report =
  total_clips_created :: nat
  total_duration_generated :: rat
  original_video_duration :: rat
  video_coverage_percentage :: rat
  video_title :: "string option"
  video_uploader :: "string option"
  processing_timestamp :: string
  clip_details :: "created_clip list"
  average_clip_duration :: rat
  shortest_clip :: rat
  longest_clip :: rat
  total_output_size_mb :: rat
  average_file_size_mb :: rat

datatype report_outcome = No_clips_were_created | Report_written string report

text \<open>
  \<^verbatim>\<open>generate_comprehensive_report\<close>, in the order in which the source evaluates: the sum
  of the durations; the duration of the video, whose comparison with 0 raises
  \<^verbatim>\<open>TypeError\<close> when it is \<^verbatim>\<open>None\<close>; the coverage, \<^verbatim>\<open>total_duration / video_duration * 100\<close>
  under the guard \<^verbatim>\<open>video_duration > 0\<close> and the \<^verbatim>\<open>int\<close> 0 otherwise; the report dict with
  its two further divisions; the path \<^verbatim>\<open>os.path.join(output_dir, "report.json")\<close>; and
  \<^verbatim>\<open>open\<close> with \<^verbatim>\<open>json.dump\<close>, which raise \<^verbatim>\<open>OSError\<close> when the file cannot be written
  (\<open>can_write\<close> tells, per path). The value is the returned string, with the report
  written beside the path; \<open>now\<close> is the time stamp printed by \<^verbatim>\<open>time.strftime\<close>.
\<close>

definition generate_comprehensive_report :: "float_ops \<Rightarrow> (string \<Rightarrow> bool) \<Rightarrow> string
    \<Rightarrow> created_clip list \<Rightarrow> metadata \<Rightarrow> string \<Rightarrow> py_error + report_outcome" where
  "generate_comprehensive_report ops can_write now created_clips metadata output_dir =
     (case created_clips of
        [] \<Rightarrow> Inr No_clips_were_created
      | clip # clips \<Rightarrow>
         (let total_duration = fl_sum ops (map c_duration created_clips)
          in case dict_get (md_duration metadata) 0 of
               None \<Rightarrow> Inl TypeError
             | Some video_duration \<Rightarrow>
            (case (if video_duration > 0 then
                     (case py_truediv ops total_duration video_duration of
                        Inl e \<Rightarrow> Inl e | Inr q \<Rightarrow> Inr (Inr (fl_mul ops q 100)))
                   else Inr (Inl 0)) of
               Inl e \<Rightarrow> Inl e
             | Inr coverage_percentage \<Rightarrow>
            (case py_truediv ops total_duration (of_nat (length created_clips)) of
               Inl e \<Rightarrow> Inl e
             | Inr average_duration \<Rightarrow>
            (case py_truediv ops (fl_sum ops (map size_mb created_clips))
                    (of_nat (length created_clips)) of
               Inl e \<Rightarrow> Inl e
             | Inr average_size \<Rightarrow>
                (let report_path = os_path_join output_dir ''report.json''
                 in if can_write report_path then
                      Inr (Report_written report_path
                        \<lparr> total_clips_created = length created_clips,
                          total_duration_generated = total_duration,
                          original_video_duration = video_duration,
                          video_coverage_percentage = py_round2 ops coverage_percentage,
                          video_title = dict_get (md_title metadata) ''Unknown'',
                          video_uploader = dict_get (md_uploader metadata) ''Unknown'',
                          processing_timestamp = now,
                          clip_details = created_clips,
                          average_clip_duration = average_duration,
                          shortest_clip = fold min (map c_duration clips) (c_duration clip),
                          longest_clip = fold max (map c_duration clips) (c_duration clip),
                          total_output_size_mb = fl_sum ops (map size_mb created_clips),
                          average_file_size_mb = average_size \<rparr>)
                    else Inl OSError))))))"

text \<open>The coverage of the report that was written, if one was.\<close>

definition reported_coverage :: "py_error + report_outcome \<Rightarrow> rat option" where
  "reported_coverage outcome =
     (case outcome of
        Inr (Report_written report_path r) \<Rightarrow> Some (video_coverage_percentage r)
      | Inr No_clips_were_created \<Rightarrow> None
      | Inl e \<Rightarrow> None)"

text \<open>
  Clips for examples: the entry of the \<open>n\<close>-th full window, with a file of one mebibyte.
\<close>

definition example_clip :: "int \<Rightarrow> created_clip" where
  "example_clip n =
     \<lparr> path = os_path_join OUTPUT_DIR ''clip.mp4'', c_clip_number = n,
       c_start_time = 25 * (of_int n - 1), c_end_time = 25 * (of_int n - 1) + 30,
       c_duration = 30, filename = ''clip.mp4'', size_mb = 1 \<rparr>"

definition example_metadata :: "rat dict_value \<Rightarrow> metadata" where
  "example_metadata d = \<lparr> md_title = Value ''t'', md_duration = d, md_uploader = Absent \<rparr>"

section \<open>Progress record\<close>

text \<open>The module-level dict \<^verbatim>\<open>progress_state\<close>; \<open>None\<close> in \<open>error\<close> is Python's \<^verbatim>\<open>None\<close>.\<close>

record progress_state =
  status :: string
  message :: string
  progress :: int
  total_clips :: int
  current_clip :: int
  error :: "string option"

definition progress_state_init :: progress_state where
  "progress_state_init = \<lparr> status = ''idle'', message = [], progress = 0, total_clips = 0,
                            current_clip = 0, error = None \<rparr>"

text \<open>
  \<^verbatim>\<open>update_progress\<close> calls \<^verbatim>\<open>progress_state.update\<close> with six keys. The defaults of its
  last three parameters (all 0) are supplied by the caller here.
\<close>

definition update_progress :: "string \<Rightarrow> string \<Rightarrow> int \<Rightarrow> int \<Rightarrow> int \<Rightarrow> progress_state \<Rightarrow> progress_state" where
  "update_progress st msg pct tot cur s =
     s\<lparr> status := st, message := msg, progress := pct, total_clips := tot,
        current_clip := cur, error := None \<rparr>"

text \<open>
  The \<^verbatim>\<open>except Exception as e\<close> handler of \<^verbatim>\<open>generate_shorts\<close>, which assigns two keys of
  \<^verbatim>\<open>progress_state\<close> directly; \<open>e\<close> is \<^verbatim>\<open>str(e)\<close>.
\<close>

definition generate_shorts_except :: "string \<Rightarrow> progress_state \<Rightarrow> progress_state" where
  "generate_shorts_except e s = s\<lparr> status := ''error'', error := Some e \<rparr>"

text \<open>
  The calls that the progress hook of \<^verbatim>\<open>download_video\<close> makes while the download runs.
  \<open>Hook_downloading msg pct\<close> is a \<^verbatim>\<open>downloading\<close> event whose percent string parses,
  with the message and the overall percentage that the hook prints and computes from it;
  \<open>Hook_finished\<close> is the \<^verbatim>\<open>finished\<close> event. An event whose percent string does not parse
  makes no call (\<^verbatim>\<open>except ValueError: pass\<close>) and is not in the list.
\<close>

datatype hook_call = Hook_downloading string int | Hook_finished

fun progress_hook :: "hook_call \<Rightarrow> progress_state \<Rightarrow> progress_state" where
  "progress_hook (Hook_downloading msg pct) s = update_progress ''downloading'' msg pct 0 0 s"
| "progress_hook Hook_finished s =
     update_progress ''downloading'' ''Download complete, processing...'' 30 0 0 s"

text \<open>
  The start of a run of \<^verbatim>\<open>generate_shorts\<close>, up to the download: two milestones, the
  calls of the hook, then the handler when \<^verbatim>\<open>download_video\<close> raises (\<open>Some e\<close>), the next
  milestone when it returns.
\<close>

definition generate_shorts_download_phase :: "hook_call list \<Rightarrow> string option \<Rightarrow> progress_state
    \<Rightarrow> progress_state" where
  "generate_shorts_download_phase hook_calls download_error s =
     (let s1 = update_progress ''downloading'' ''Starting download...'' 0 0 0 s;
          s2 = update_progress ''downloading'' ''Downloading YouTube video...'' 10 0 0 s1;
          s3 = fold progress_hook hook_calls s2
      in case download_error of
           Some e \<Rightarrow> generate_shorts_except e s3
         | None \<Rightarrow> update_progress ''downloading'' ''Download complete!'' 30 0 0 s3)"

section \<open>Reading the batch\<close>

text \<open>
  Names for what the loop body of \<^verbatim>\<open>create_all_30sec_clips\<close> computes for the entry at
  index \<open>fst p\<close> with segment \<open>snd p\<close>: the output path, whether the encoder returns
  \<open>True\<close>, and the entry appended on success.
\<close>

definition output_path_for :: "(string \<Rightarrow> int \<Rightarrow> rat \<Rightarrow> string) \<Rightarrow> string \<Rightarrow> segment \<Rightarrow> string" where
  "output_path_for format_filename clean_title seg =
     os_path_join OUTPUT_DIR (format_filename clean_title (clip_number seg) (start_time seg))"

definition encode_succeeds :: "config \<Rightarrow> (string \<Rightarrow> int \<Rightarrow> rat \<Rightarrow> string) \<Rightarrow> (nat \<Rightarrow> transcoder)
    \<Rightarrow> string \<Rightarrow> string \<Rightarrow> nat \<times> segment \<Rightarrow> bool" where
  "encode_succeeds cfg format_filename world video_path clean_title p =
     create_30sec_clip cfg (world (fst p)) video_path (snd p)
       (output_path_for format_filename clean_title (snd p))"

definition artifact_of :: "config \<Rightarrow> (string \<Rightarrow> int \<Rightarrow> rat \<Rightarrow> string) \<Rightarrow> (nat \<Rightarrow> transcoder)
    \<Rightarrow> string \<Rightarrow> string \<Rightarrow> nat \<times> segment \<Rightarrow> created_clip" where
  "artifact_of cfg format_filename world video_path clean_title p =
     clip_entry format_filename clean_title (snd p)
       (file_size (world (fst p) (ffmpeg_command cfg video_path (snd p)
          (output_path_for format_filename clean_title (snd p)))))"

text \<open>
  The causes of a failed encode as the specification lists them (the external call fails,
  the output file is missing, the output file is undersized, the call times out), read off
  a response of the transcoder. This classification follows the specification's words; it
  is compared with the encoder's own result below.
\<close>

datatype encode_failure = External_call_failed | Output_missing | Output_undersized | Timeout

definition spec_encode_failure :: "encode_response \<Rightarrow> encode_failure option" where
  "spec_encode_failure response =
     (case run response of
        TimeoutExpired \<Rightarrow> Some Timeout
      | OtherException \<Rightarrow> Some External_call_failed
      | Completed rc \<Rightarrow>
          if rc = 0 then
            (if file_exists response then
               (if file_size response > 500000 then None else Some Output_undersized)
             else Some Output_missing)
          else Some External_call_failed)"

definition encode_fails :: "config \<Rightarrow> (string \<Rightarrow> int \<Rightarrow> rat \<Rightarrow> string) \<Rightarrow> (nat \<Rightarrow> transcoder)
    \<Rightarrow> string \<Rightarrow> string \<Rightarrow> nat \<times> segment \<Rightarrow> bool" where
  "encode_fails cfg format_filename world video_path clean_title p =
     (spec_encode_failure (world (fst p) (ffmpeg_command cfg video_path (snd p)
            (output_path_for format_filename clean_title (snd p)))) \<noteq> None)"

text \<open>
  A transcoder for examples: every call completes with return code 0 and leaves a file of
  one mebibyte, except the call for the entry at index 1, whose output file is missing.
  The file name printer of examples keeps the clean title only.
\<close>

definition example_world :: "nat \<Rightarrow> transcoder" where
  "example_world i cmd = \<lparr> run = Completed 0, file_exists = (i \<noteq> 1), file_size = 1048576 \<rparr>"

definition example_format :: "string \<Rightarrow> int \<Rightarrow> rat \<Rightarrow> string" where
  "example_format clean_title n start = clean_title @ ''.mp4''"

section \<open>Properties of the segment planner\<close>

declare segments_loop.simps [simp del]

lemma segments_loop_stop:
  "\<not> (s < d \<and> c < MAX_CLIPS_PER_VIDEO cfg) \<Longrightarrow> segments_loop cfg d s c acc = acc"
  by (subst segments_loop.simps) (simp only: if_False)

lemma segments_loop_final:
  "s < d \<Longrightarrow> c < MAX_CLIPS_PER_VIDEO cfg \<Longrightarrow> s + CLIP_DURATION cfg > d \<Longrightarrow>
   segments_loop cfg d s c acc =
     (if d - s \<ge> MIN_CLIP_DURATION cfg then
        acc @ [\<lparr> start_time = s, end_time = d, duration = d - s, clip_number = c + 1,
                 is_final_clip = True \<rparr>]
      else acc)"
  by (subst segments_loop.simps) simp

lemma segments_loop_full:
  "s < d \<Longrightarrow> c < MAX_CLIPS_PER_VIDEO cfg \<Longrightarrow> \<not> s + CLIP_DURATION cfg > d \<Longrightarrow>
   segments_loop cfg d s c acc =
     segments_loop cfg d (s + step_size cfg) (c + 1)
       (acc @ [\<lparr> start_time = s, end_time = s + CLIP_DURATION cfg,
                  duration = CLIP_DURATION cfg, clip_number = c + 1,
                  is_final_clip = False \<rparr>])"
  by (subst segments_loop.simps) simp

lemma segments_loop_length:
  "length (segments_loop cfg d s c acc) \<le> length acc + nat (MAX_CLIPS_PER_VIDEO cfg - c)"
proof (induction cfg d s c acc rule: segments_loop.induct)
  case (1 cfg d s c acc)
  show ?case
  proof (cases "s < d \<and> c < MAX_CLIPS_PER_VIDEO cfg")
    case False
    then show ?thesis by (simp add: segments_loop_stop [OF False])
  next
    case True
    show ?thesis
    proof (cases "s + CLIP_DURATION cfg > d")
      case True
      with \<open>s < d \<and> c < MAX_CLIPS_PER_VIDEO cfg\<close> show ?thesis
        by (auto simp: segments_loop_final)
    next
      case False
      with True "1.IH" have "length (segments_loop cfg d s c acc)
          \<le> length acc + (1 + nat (MAX_CLIPS_PER_VIDEO cfg - (c + 1)))"
        by (simp add: segments_loop_full)
      moreover from True have "1 + nat (MAX_CLIPS_PER_VIDEO cfg - (c + 1))
          = nat (MAX_CLIPS_PER_VIDEO cfg - c)"
        by arith
      ultimately show ?thesis by simp
    qed
  qed
qed

lemma segments_loop_elem:
  "w \<in> set (segments_loop cfg d s c acc) \<Longrightarrow>
     w \<in> set acc
     \<or> (\<not> is_final_clip w \<and> duration w = CLIP_DURATION cfg
          \<and> end_time w = start_time w + CLIP_DURATION cfg \<and> end_time w \<le> d \<and> start_time w < d)
     \<or> (is_final_clip w \<and> end_time w = d \<and> duration w = d - start_time w
          \<and> MIN_CLIP_DURATION cfg \<le> duration w \<and> duration w < CLIP_DURATION cfg
          \<and> start_time w < d)"
proof (induction cfg d s c acc rule: segments_loop.induct)
  case (1 cfg d s c acc)
  show ?case
  proof (cases "s < d \<and> c < MAX_CLIPS_PER_VIDEO cfg")
    case False
    with "1.prems" show ?thesis by (simp add: segments_loop_stop [OF False])
  next
    case True
    show ?thesis
    proof (cases "s + CLIP_DURATION cfg > d")
      case True
      with \<open>s < d \<and> c < MAX_CLIPS_PER_VIDEO cfg\<close> "1.prems" show ?thesis
        by (auto simp: segments_loop_final split: if_splits)
    next
      case False
      with True "1.prems" have "w \<in> set (segments_loop cfg d (s + step_size cfg) (c + 1)
             (acc @ [\<lparr> start_time = s, end_time = s + CLIP_DURATION cfg,
                             duration = CLIP_DURATION cfg, clip_number = c + 1,
                             is_final_clip = False \<rparr>]))"
        by (simp add: segments_loop_full)
      from "1.IH"[OF True _ this] False True show ?thesis
        by auto
    qed
  qed
qed

lemma segments_loop_sorted:
  "0 < step_size cfg \<Longrightarrow> sorted_wrt (<) (map start_time acc) \<Longrightarrow>
   \<forall>w\<in>set acc. start_time w < s \<Longrightarrow>
   sorted_wrt (<) (map start_time (segments_loop cfg d s c acc))"
proof (induction cfg d s c acc rule: segments_loop.induct)
  case (1 cfg d s c acc)
  show ?case
  proof (cases "s < d \<and> c < MAX_CLIPS_PER_VIDEO cfg")
    case False
    with "1.prems" show ?thesis by (simp add: segments_loop_stop [OF False])
  next
    case True
    show ?thesis
    proof (cases "s + CLIP_DURATION cfg > d")
      case True
      with \<open>s < d \<and> c < MAX_CLIPS_PER_VIDEO cfg\<close> "1.prems" show ?thesis
        by (auto simp: segments_loop_final sorted_wrt_append)
    next
      case False
      let ?acc = "acc @ [\<lparr> start_time = s, end_time = s + CLIP_DURATION cfg,
                             duration = CLIP_DURATION cfg, clip_number = c + 1,
                             is_final_clip = False \<rparr>]"
      have a: "sorted_wrt (<) (map start_time ?acc)"
        using "1.prems" by (auto simp: sorted_wrt_append)
      have b: "\<forall>w\<in>set ?acc. start_time w < s + step_size cfg"
        using "1.prems" by (auto intro: less_trans)
      have "sorted_wrt (<) (map start_time (segments_loop cfg d (s + step_size cfg) (c + 1) ?acc))"
        using "1.IH" True False "1.prems"(1) a b by blast
      with True False show ?thesis
        by (simp add: segments_loop_full)
    qed
  qed
qed

lemma upto_length_eq: "0 \<le> c \<Longrightarrow> map f acc = [1..c] \<Longrightarrow> int (length acc) = c"
proof -
  assume c: "0 \<le> c" and m: "map f acc = [1..c]"
  have "length acc = length (map f acc)" by simp
  also have "\<dots> = nat c" by (simp only: m length_upto)
  finally show ?thesis using c by simp
qed

lemma segments_loop_numbers:
  "0 \<le> c \<Longrightarrow> map clip_number acc = [1..c] \<Longrightarrow>
   map clip_number (segments_loop cfg d s c acc)
     = [1..int (length (segments_loop cfg d s c acc))]"
proof (induction cfg d s c acc rule: segments_loop.induct)
  case (1 cfg d s c acc)
  from "1.prems" have len: "int (length acc) = c"
    by (rule upto_length_eq)
  have ext: "[1..c] @ [c + 1] = [1..c + 1]"
    using "1.prems"(1) by (simp add: upto_rec2)
  show ?case
  proof (cases "s < d \<and> c < MAX_CLIPS_PER_VIDEO cfg")
    case False
    with "1.prems" len show ?thesis by (simp add: segments_loop_stop [OF False])
  next
    case True
    show ?thesis
    proof (cases "s + CLIP_DURATION cfg > d")
      case True
      with \<open>s < d \<and> c < MAX_CLIPS_PER_VIDEO cfg\<close> "1.prems" len ext show ?thesis
        by (simp add: segments_loop_final add.commute)
    next
      case False
      let ?acc = "acc @ [\<lparr> start_time = s, end_time = s + CLIP_DURATION cfg,
                             duration = CLIP_DURATION cfg, clip_number = c + 1,
                             is_final_clip = False \<rparr>]"
      have a: "map clip_number ?acc = [1..c + 1]"
        using "1.prems" ext by simp
      have "map clip_number (segments_loop cfg d (s + step_size cfg) (c + 1) ?acc)
            = [1..int (length (segments_loop cfg d (s + step_size cfg) (c + 1) ?acc))]"
        using "1.IH" True False "1.prems"(1) a by simp
      with True False show ?thesis
        by (simp add: segments_loop_full)
    qed
  qed
qed


lemma Config_step: "step_size Config = 25"
  by (simp add: step_size_def Config_def)

lemma plan_window_shape:
  "w \<in> set (calculate_all_clip_segments cfg d) \<Longrightarrow>
     (\<not> is_final_clip w \<and> duration w = CLIP_DURATION cfg
          \<and> end_time w = start_time w + CLIP_DURATION cfg \<and> end_time w \<le> d \<and> start_time w < d)
     \<or> (is_final_clip w \<and> end_time w = d \<and> duration w = d - start_time w
          \<and> MIN_CLIP_DURATION cfg \<le> duration w \<and> duration w < CLIP_DURATION cfg
          \<and> start_time w < d)"
  unfolding calculate_all_clip_segments_def
  by (drule segments_loop_elem) simp

lemma segments_loop_nonpositive_step:
  "step_size cfg \<le> 0 \<Longrightarrow> s \<le> 0 \<Longrightarrow> 0 < CLIP_DURATION cfg \<Longrightarrow> CLIP_DURATION cfg \<le> d \<Longrightarrow>
   c \<le> MAX_CLIPS_PER_VIDEO cfg \<Longrightarrow>
   length (segments_loop cfg d s c acc) = length acc + nat (MAX_CLIPS_PER_VIDEO cfg - c)
   \<and> (\<forall>w \<in> set (segments_loop cfg d s c acc).
         w \<in> set acc \<or> (\<not> is_final_clip w \<and> start_time w \<le> 0))"
proof (induction cfg d s c acc rule: segments_loop.induct)
  case (1 cfg d s c acc)
  show ?case
  proof (cases "c < MAX_CLIPS_PER_VIDEO cfg")
    case False
    then have "\<not> (s < d \<and> c < MAX_CLIPS_PER_VIDEO cfg)" by simp
    from segments_loop_stop [OF this] False "1.prems" show ?thesis by simp
  next
    case True
    from "1.prems" have sd: "s < d" and full: "\<not> s + CLIP_DURATION cfg > d" by auto
    let ?acc = "acc @ [\<lparr> start_time = s, end_time = s + CLIP_DURATION cfg,
                             duration = CLIP_DURATION cfg, clip_number = c + 1,
                             is_final_clip = False \<rparr>]"
    have eq: "segments_loop cfg d s c acc = segments_loop cfg d (s + step_size cfg) (c + 1) ?acc"
      using sd True full by (rule segments_loop_full)
    have s': "s + step_size cfg \<le> 0" using "1.prems" by simp
    have c': "c + 1 \<le> MAX_CLIPS_PER_VIDEO cfg" using True by simp
    have sdc: "s < d \<and> c < MAX_CLIPS_PER_VIDEO cfg" using sd True by simp
    note ih = "1.IH" [OF sdc full "1.prems"(1) s' "1.prems"(3) "1.prems"(4) c']
    have arith: "1 + nat (MAX_CLIPS_PER_VIDEO cfg - (c + 1)) = nat (MAX_CLIPS_PER_VIDEO cfg - c)"
      using True by arith
    from ih arith have len: "length (segments_loop cfg d s c acc)
        = length acc + nat (MAX_CLIPS_PER_VIDEO cfg - c)"
      by (simp add: eq)
    from ih "1.prems"(2) have el: "\<forall>w \<in> set (segments_loop cfg d s c acc).
         w \<in> set acc \<or> (\<not> is_final_clip w \<and> start_time w \<le> 0)"
      by (auto simp: eq)
    from len el show ?thesis by simp
  qed
qed

text \<open>Two plans computed with the source's parameters, for 100 and for 55 seconds.\<close>

lemma plan_100:
  "calculate_all_clip_segments Config 100 =
     [\<lparr>start_time = 0, end_time = 30, duration = 30, clip_number = 1, is_final_clip = False\<rparr>,
      \<lparr>start_time = 25, end_time = 55, duration = 30, clip_number = 2, is_final_clip = False\<rparr>,
      \<lparr>start_time = 50, end_time = 80, duration = 30, clip_number = 3, is_final_clip = False\<rparr>,
      \<lparr>start_time = 75, end_time = 100, duration = 25, clip_number = 4, is_final_clip = True\<rparr>]"
  by code_simp

lemma plan_55:
  "calculate_all_clip_segments Config 55 =
     [\<lparr>start_time = 0, end_time = 30, duration = 30, clip_number = 1, is_final_clip = False\<rparr>,
      \<lparr>start_time = 25, end_time = 55, duration = 30, clip_number = 2, is_final_clip = False\<rparr>]"
  by code_simp

text \<open>
  C1. With the source's parameters and a total duration that is not negative, the start
  times of the plan increase strictly, no end time exceeds the total duration, and the
  clip numbers are 1, 2, ..., N in this order, N the length of the plan, the truncated
  last window included.
\<close>

theorem plan_ordered_bounded_numbered:
  "0 \<le> total_duration \<Longrightarrow>
     sorted_wrt (<) (map start_time (calculate_all_clip_segments Config total_duration))
   \<and> (\<forall>w \<in> set (calculate_all_clip_segments Config total_duration).
         end_time w \<le> total_duration)
   \<and> map clip_number (calculate_all_clip_segments Config total_duration)
       = [1..int (length (calculate_all_clip_segments Config total_duration))]"
proof (intro conjI ballI)
  show "sorted_wrt (<) (map start_time (calculate_all_clip_segments Config total_duration))"
    unfolding calculate_all_clip_segments_def
    by (rule segments_loop_sorted) (simp_all add: Config_step)
next
  fix w assume "w \<in> set (calculate_all_clip_segments Config total_duration)"
  then show "end_time w \<le> total_duration"
    by (auto dest: plan_window_shape)
next
  show "map clip_number (calculate_all_clip_segments Config total_duration)
       = [1..int (length (calculate_all_clip_segments Config total_duration))]"
    unfolding calculate_all_clip_segments_def
    by (rule segments_loop_numbers) simp_all
qed

theorem plan_ordered_bounded_numbered_witness:
  "(0::rat) \<le> 100
   \<and> map start_time (calculate_all_clip_segments Config 100) = [0, 25, 50, 75]
   \<and> sorted_wrt (<) (map start_time (calculate_all_clip_segments Config 100))
   \<and> map end_time (calculate_all_clip_segments Config 100) = [30, 55, 80, 100]
   \<and> list_all (\<lambda>w. end_time w \<le> 100) (calculate_all_clip_segments Config 100)
   \<and> map clip_number (calculate_all_clip_segments Config 100) = [1, 2, 3, 4]"
proof -
  have h: "(0::rat) \<le> 100" by simp
  have n: "[1..int (length (calculate_all_clip_segments Config 100))] = [1, 2, 3, 4]"
    by (simp add: plan_100 upto.simps)
  show ?thesis
    using plan_ordered_bounded_numbered [OF h] n by (simp add: plan_100)
qed

text \<open>
  C2. In a plan computed with the source's parameters, a window that is not final lasts
  exactly the clip duration, 30 seconds, and a final window lasts at least the minimum,
  25 seconds, and less than 30.
\<close>

theorem plan_durations:
  "w \<in> set (calculate_all_clip_segments Config total_duration) \<Longrightarrow>
     (\<not> is_final_clip w \<longrightarrow> duration w = CLIP_DURATION Config \<and> duration w = 30)
   \<and> (is_final_clip w \<longrightarrow>
         MIN_CLIP_DURATION Config \<le> duration w \<and> duration w < CLIP_DURATION Config
       \<and> 25 \<le> duration w \<and> duration w < 30)"
  by (auto dest: plan_window_shape simp: Config_def)

theorem plan_durations_witness:
  "\<lparr>start_time = 50, end_time = 80, duration = 30, clip_number = 3, is_final_clip = False\<rparr>
      \<in> set (calculate_all_clip_segments Config 100)
   \<and> \<lparr>start_time = 75, end_time = 100, duration = 25, clip_number = 4, is_final_clip = True\<rparr>
      \<in> set (calculate_all_clip_segments Config 100)
   \<and> duration \<lparr>start_time = 50, end_time = 80, duration = 30, clip_number = 3,
                 is_final_clip = False\<rparr> = CLIP_DURATION Config
   \<and> MIN_CLIP_DURATION Config
        \<le> duration \<lparr>start_time = 75, end_time = 100, duration = 25, clip_number = 4,
                      is_final_clip = True\<rparr>"
proof -
  let ?a = "\<lparr>start_time = 50, end_time = 80, duration = 30, clip_number = 3, is_final_clip = False\<rparr>"
  let ?b = "\<lparr>start_time = 75, end_time = 100, duration = 25, clip_number = 4, is_final_clip = True\<rparr>"
  have a: "?a \<in> set (calculate_all_clip_segments Config 100)"
    by (simp add: plan_100)
  have b: "?b \<in> set (calculate_all_clip_segments Config 100)"
    by (simp add: plan_100)
  show ?thesis
    using a b plan_durations [OF a] plan_durations [OF b] by simp
qed

text \<open>
  C3. With the source's parameters the plan has at most 100 windows, whatever the total
  duration, the truncated last window counted.
\<close>

theorem plan_at_most_max_windows:
  "length (calculate_all_clip_segments Config total_duration) \<le> 100"
  using segments_loop_length [of Config total_duration 0 0 "[]"]
  by (simp add: calculate_all_clip_segments_def Config_def)

text \<open>
  C4, as the code has it. The planner checks none of its parameters and raises nothing.
  With a step that is zero or negative it still returns a plan: when the clip duration is
  positive and fits into the total duration, the plan has exactly
  \<open>MAX_CLIPS_PER_VIDEO\<close> windows, none of them final and none starting after 0.
\<close>

theorem nonpositive_step_returns_plan:
  "step_size cfg \<le> 0 \<Longrightarrow> 0 < CLIP_DURATION cfg \<Longrightarrow> CLIP_DURATION cfg \<le> total_duration \<Longrightarrow>
   0 \<le> MAX_CLIPS_PER_VIDEO cfg \<Longrightarrow>
     length (calculate_all_clip_segments cfg total_duration) = nat (MAX_CLIPS_PER_VIDEO cfg)
   \<and> (\<forall>w \<in> set (calculate_all_clip_segments cfg total_duration).
         \<not> is_final_clip w \<and> start_time w \<le> 0)"
  using segments_loop_nonpositive_step [of cfg 0 total_duration 0 "[]"]
  by (simp add: calculate_all_clip_segments_def)

theorem nonpositive_step_returns_plan_witness:
  "step_size (Config\<lparr>OVERLAP_DURATION := 30\<rparr>) \<le> 0
   \<and> 0 < CLIP_DURATION (Config\<lparr>OVERLAP_DURATION := 30\<rparr>)
   \<and> CLIP_DURATION (Config\<lparr>OVERLAP_DURATION := 30\<rparr>) \<le> 60
   \<and> 0 \<le> MAX_CLIPS_PER_VIDEO (Config\<lparr>OVERLAP_DURATION := 30\<rparr>)
   \<and> length (calculate_all_clip_segments (Config\<lparr>OVERLAP_DURATION := 30\<rparr>) 60) = 100
   \<and> list_all (\<lambda>w. \<not> is_final_clip w \<and> start_time w \<le> 0)
         (calculate_all_clip_segments (Config\<lparr>OVERLAP_DURATION := 30\<rparr>) 60)"
proof -
  let ?cfg = "Config\<lparr>OVERLAP_DURATION := 30\<rparr>"
  have h1: "step_size ?cfg \<le> 0" by (simp add: step_size_def Config_def)
  have h2: "0 < CLIP_DURATION ?cfg" by (simp add: Config_def)
  have h3: "CLIP_DURATION ?cfg \<le> 60" by (simp add: Config_def)
  have h4: "0 \<le> MAX_CLIPS_PER_VIDEO ?cfg" by (simp add: Config_def)
  have m: "nat (MAX_CLIPS_PER_VIDEO ?cfg) = 100" by (simp add: Config_def)
  show ?thesis
    using h1 h2 h3 h4 m nonpositive_step_returns_plan [OF h1 h2 h3 h4]
    by (simp add: list_all_iff)
qed

text \<open>
  Against C4 as stated: with an overlap equal to the clip duration the step is 0, and the
  planner returns a plan (here with the bound lowered to 3, for a total duration of 60
  seconds: three windows, all from 0 to 30).
\<close>

theorem nonpositive_step_counterexample:
  "step_size (Config\<lparr>OVERLAP_DURATION := 30, MAX_CLIPS_PER_VIDEO := 3\<rparr>) = 0
   \<and> calculate_all_clip_segments (Config\<lparr>OVERLAP_DURATION := 30, MAX_CLIPS_PER_VIDEO := 3\<rparr>) 60 =
       [\<lparr>start_time = 0, end_time = 30, duration = 30, clip_number = 1, is_final_clip = False\<rparr>,
        \<lparr>start_time = 0, end_time = 30, duration = 30, clip_number = 2, is_final_clip = False\<rparr>,
        \<lparr>start_time = 0, end_time = 30, duration = 30, clip_number = 3, is_final_clip = False\<rparr>]"
  by code_simp

section \<open>Properties of the report\<close>

text \<open>
  C5, as the code has it. For a list of clips that is not empty no division raises
  \<^verbatim>\<open>ZeroDivisionError\<close>. A duration of \<^verbatim>\<open>None\<close> in the metadata raises \<^verbatim>\<open>TypeError\<close>, and a
  report file that cannot be written raises \<^verbatim>\<open>OSError\<close>. Otherwise the report is written,
  and the coverage it holds is a percentage: when the duration of the video is positive,
  the float quotient of the summed durations by it, times 100, rounded to two decimals, in
  this order of float operations; and 0 when the duration is 0, negative or absent.
\<close>

theorem report_coverage_percentage:
  "created_clips \<noteq> [] \<Longrightarrow>
     generate_comprehensive_report ops can_write now created_clips metadata output_dir
       \<noteq> Inl ZeroDivisionError
   \<and> (md_duration metadata = Py_None \<longrightarrow>
        generate_comprehensive_report ops can_write now created_clips metadata output_dir
          = Inl TypeError)
   \<and> (md_duration metadata \<noteq> Py_None \<and> \<not> can_write (os_path_join output_dir ''report.json'') \<longrightarrow>
        generate_comprehensive_report ops can_write now created_clips metadata output_dir
          = Inl OSError)
   \<and> (md_duration metadata \<noteq> Py_None \<and> can_write (os_path_join output_dir ''report.json'') \<longrightarrow>
        reported_coverage
          (generate_comprehensive_report ops can_write now created_clips metadata output_dir)
          = Some (let video_duration = (case md_duration metadata of Value v \<Rightarrow> v | _ \<Rightarrow> 0)
                  in if 0 < video_duration then
                       fl_round2 ops
                         (fl_mul ops
                            (fl_truediv ops (fl_sum ops (map c_duration created_clips))
                               video_duration)
                            100)
                     else 0))"
proof -
  assume "created_clips \<noteq> []"
  then obtain c cs where cs: "created_clips = c # cs" by (cases created_clips) auto
  show ?thesis
    unfolding cs generate_comprehensive_report_def
    by (cases "md_duration metadata")
       (simp_all add: dict_get_def py_truediv_def py_round2_def reported_coverage_def Let_def
          del: of_nat_Suc)
qed

theorem report_coverage_percentage_witness:
  "map example_clip [1..17] \<noteq> []
   \<and> fl_sum binary64 (map c_duration (map example_clip [1..17])) = 510
   \<and> fl_truediv binary64 510 1600 = 2871044762448691 / 9007199254740992
   \<and> fl_mul binary64 (2871044762448691 / 9007199254740992) 100
       = 8972014882652159 / 281474976710656
   \<and> to_double (3187 / 100) = 8970607507768607 / 281474976710656
   \<and> reported_coverage
       (generate_comprehensive_report binary64 (\<lambda>p. True) ''2024-01-01 00:00:00''
          (map example_clip [1..17]) (example_metadata (Value 1600)) ''out'')
       = Some (8970607507768607 / 281474976710656)
   \<and> generate_comprehensive_report binary64 (\<lambda>p. True) ''2024-01-01 00:00:00''
          (map example_clip [1..17]) (example_metadata Py_None) ''out''
       = Inl TypeError
   \<and> generate_comprehensive_report binary64 (\<lambda>p. False) ''2024-01-01 00:00:00''
          (map example_clip [1..17]) (example_metadata (Value 1600)) ''out''
       = Inl OSError"
proof -
  have h: "map example_clip [1..17] \<noteq> []" by simp
  have s: "fl_sum binary64 (map c_duration (map example_clip [1..17])) = 510"
    by code_simp
  have q: "fl_truediv binary64 510 1600 = 2871044762448691 / 9007199254740992"
    by code_simp
  have m: "fl_mul binary64 (2871044762448691 / 9007199254740992) 100
       = 8972014882652159 / 281474976710656"
    by code_simp
  have r: "fl_round2 binary64 (8972014882652159 / 281474976710656)
       = 8970607507768607 / 281474976710656"
    by code_simp
  have d: "to_double (3187 / 100) = 8970607507768607 / 281474976710656"
    by code_simp
  note t1 = report_coverage_percentage [OF h, where ops = binary64 and can_write = "\<lambda>p. True"
      and now = "''2024-01-01 00:00:00''" and metadata = "example_metadata (Value 1600)"
      and output_dir = "''out''"]
  note t2 = report_coverage_percentage [OF h, where ops = binary64 and can_write = "\<lambda>p. True"
      and now = "''2024-01-01 00:00:00''" and metadata = "example_metadata Py_None"
      and output_dir = "''out''"]
  note t3 = report_coverage_percentage [OF h, where ops = binary64 and can_write = "\<lambda>p. False"
      and now = "''2024-01-01 00:00:00''" and metadata = "example_metadata (Value 1600)"
      and output_dir = "''out''"]
  have c1: "reported_coverage
       (generate_comprehensive_report binary64 (\<lambda>p. True) ''2024-01-01 00:00:00''
          (map example_clip [1..17]) (example_metadata (Value 1600)) ''out'')
       = Some (8970607507768607 / 281474976710656)"
    using t1 by (simp add: example_metadata_def s q m r del: map_map)
  have c2: "generate_comprehensive_report binary64 (\<lambda>p. True) ''2024-01-01 00:00:00''
          (map example_clip [1..17]) (example_metadata Py_None) ''out''
       = Inl TypeError"
    using t2 by (simp add: example_metadata_def)
  have c3: "generate_comprehensive_report binary64 (\<lambda>p. False) ''2024-01-01 00:00:00''
          (map example_clip [1..17]) (example_metadata (Value 1600)) ''out''
       = Inl OSError"
    using t3 by (simp add: example_metadata_def)
  from h s q m d c1 c2 c3 show ?thesis
    by (intro conjI)
qed

text \<open>
  Against C5 as stated: one clip of 30 seconds from a video of 40 seconds is reported with
  a coverage of 75, which is not 30 / 40.
\<close>

theorem coverage_ratio_counterexample:
  "reported_coverage
     (generate_comprehensive_report binary64 (\<lambda>p. True) ''2024-01-01 00:00:00''
        [example_clip 1] (example_metadata (Value 40)) ''out'')
     = Some 75
   \<and> fl_sum binary64 (map c_duration [example_clip 1]) = 30
   \<and> (75::rat) \<noteq> 30 / 40"
proof -
  have a: "reported_coverage
     (generate_comprehensive_report binary64 (\<lambda>p. True) ''2024-01-01 00:00:00''
        [example_clip 1] (example_metadata (Value 40)) ''out'')
     = Some 75"
    by code_simp
  have b: "fl_sum binary64 (map c_duration [example_clip 1]) = 30"
    by code_simp
  show ?thesis using a b by simp
qed

section \<open>Properties of the batch and of the encoder\<close>

lemma clips_loop_filter:
  "clips_loop cfg fmt world vp ct i segments acc =
     acc @ map (artifact_of cfg fmt world vp ct)
            (filter (encode_succeeds cfg fmt world vp ct) (enumerate i segments))"
proof (induction segments arbitrary: i acc)
  case Nil
  show ?case by simp
next
  case (Cons seg segments)
  show ?case
    by (simp add: Cons.IH Let_def encode_succeeds_def artifact_of_def output_path_for_def)
qed

lemma encode_fails_iff:
  "encode_fails cfg fmt world vp ct p \<longleftrightarrow> \<not> encode_succeeds cfg fmt world vp ct p"
  by (simp add: encode_fails_def spec_encode_failure_def encode_succeeds_def
        create_30sec_clip_def Let_def split: run_result.splits)

lemma length_filter_partition:
  "length (filter P xs) + length (filter (\<lambda>x. \<not> P x) xs) = length xs"
  by (induction xs) auto

text \<open>
  C6. For every plan the loop returns, in plan order, exactly the entries of the windows
  whose encode succeeds; a window whose encode fails (the call fails or times out, the
  output file is missing or undersized) adds nothing and does not stop the loop, so the
  number of clips and the number of failed windows add up to the length of the plan. The
  same holds for \<^verbatim>\<open>create_all_30sec_clips\<close> on the plan it computes.
\<close>

theorem batch_skips_failed_windows:
  "clips_loop cfg fmt world vp ct 0 segments [] =
     map (artifact_of cfg fmt world vp ct)
       (filter (encode_succeeds cfg fmt world vp ct) (enumerate 0 segments))
   \<and> length (clips_loop cfg fmt world vp ct 0 segments [])
       + length (filter (encode_fails cfg fmt world vp ct) (enumerate 0 segments))
     = length segments
   \<and> create_all_30sec_clips cfg fmt world (Some d) vp title =
       map (artifact_of cfg fmt world vp (sanitize_filename title))
         (filter (encode_succeeds cfg fmt world vp (sanitize_filename title))
            (enumerate 0 (calculate_all_clip_segments cfg d)))
   \<and> length (create_all_30sec_clips cfg fmt world (Some d) vp title)
       + length (filter (encode_fails cfg fmt world vp (sanitize_filename title))
            (enumerate 0 (calculate_all_clip_segments cfg d)))
     = length (calculate_all_clip_segments cfg d)
   \<and> encode_fails cfg fmt world vp ct p = (\<not> encode_succeeds cfg fmt world vp ct p)"
proof -
  have fails: "encode_fails cfg fmt world vp c = (\<lambda>p. \<not> encode_succeeds cfg fmt world vp c p)"
    for c by (rule ext) (rule encode_fails_iff)
  have a: "clips_loop cfg fmt world vp c 0 segs [] =
     map (artifact_of cfg fmt world vp c)
       (filter (encode_succeeds cfg fmt world vp c) (enumerate 0 segs))" for c segs
    by (simp add: clips_loop_filter)
  have b: "length (clips_loop cfg fmt world vp c 0 segs [])
       + length (filter (encode_fails cfg fmt world vp c) (enumerate 0 segs))
     = length segs" for c segs
    using length_filter_partition [of "encode_succeeds cfg fmt world vp c" "enumerate 0 segs"]
    by (simp add: a fails)
  have c: "create_all_30sec_clips cfg fmt world (Some d) vp title =
      clips_loop cfg fmt world vp (sanitize_filename title) 0 (calculate_all_clip_segments cfg d) []"
    by (simp add: create_all_30sec_clips_def Let_def)
  show ?thesis
    using a [of ct segments] b [of ct segments]
      a [of "sanitize_filename title" "calculate_all_clip_segments cfg d"]
      b [of "sanitize_filename title" "calculate_all_clip_segments cfg d"]
      encode_fails_iff [of cfg fmt world vp ct p]
    by (simp only: c)
qed

theorem batch_skips_failed_windows_witness:
  "map c_clip_number
     (create_all_30sec_clips Config example_format example_world (Some 100) ''in.mp4'' ''t'')
     = [1, 3, 4]
   \<and> filter (encode_fails Config example_format example_world ''in.mp4'' (sanitize_filename ''t''))
       (enumerate 0 (calculate_all_clip_segments Config 100))
     = [(1, \<lparr>start_time = 25, end_time = 55, duration = 30, clip_number = 2,
             is_final_clip = False\<rparr>)]
   \<and> length (create_all_30sec_clips Config example_format example_world (Some 100) ''in.mp4'' ''t'')
       + 1 = length (calculate_all_clip_segments Config 100)"
proof -
  have s: "encode_succeeds Config example_format example_world ''in.mp4'' ct p = (fst p \<noteq> 1)"
    for ct p
    by (simp add: encode_succeeds_def create_30sec_clip_def example_world_def)
  have f: "encode_fails Config example_format example_world ''in.mp4'' ct p = (fst p = 1)"
    for ct p
    by (simp add: encode_fails_def spec_encode_failure_def example_world_def)
  have n: "c_clip_number (artifact_of cfg fmt world vp ct p) = clip_number (snd p)"
    for cfg fmt world vp ct p
    by (simp add: artifact_of_def clip_entry_def Let_def)
  have e: "enumerate 0 (calculate_all_clip_segments Config 100) =
     [(0, \<lparr>start_time = 0, end_time = 30, duration = 30, clip_number = 1, is_final_clip = False\<rparr>),
      (1, \<lparr>start_time = 25, end_time = 55, duration = 30, clip_number = 2, is_final_clip = False\<rparr>),
      (2, \<lparr>start_time = 50, end_time = 80, duration = 30, clip_number = 3, is_final_clip = False\<rparr>),
      (3, \<lparr>start_time = 75, end_time = 100, duration = 25, clip_number = 4, is_final_clip = True\<rparr>)]"
    by (simp add: plan_100)
  show ?thesis
    using batch_skips_failed_windows [of Config example_format example_world "''in.mp4''"
        "sanitize_filename ''t''" "calculate_all_clip_segments Config 100" 100 "''t''"
        "(1, \<lparr>start_time = 25, end_time = 55, duration = 30, clip_number = 2,
             is_final_clip = False\<rparr>)"]
    by (simp add: e s f n plan_100)
qed

text \<open>
  C7. The chain built for a segment has one fade-out, which starts at the duration of this
  segment less the fade duration of 0.2 seconds. In a plan computed with the source's
  parameters the fade-out of a window that is not final therefore starts at 29.8 seconds,
  and the fade-out of a final window starts earlier, at 24.8 seconds or later.
\<close>

theorem fade_out_anchored_per_window:
  "fade_out_starts (cmd_af (ffmpeg_command Config video_path seg output_path))
     = [duration seg - AUDIO_FADE_DURATION Config]
   \<and> (w \<in> set (calculate_all_clip_segments Config total_duration) \<and> is_final_clip w
      \<and> v \<in> set (calculate_all_clip_segments Config total_duration) \<and> \<not> is_final_clip v
      \<longrightarrow> fade_out_starts (cmd_af (ffmpeg_command Config video_path v path_v)) = [149 / 5]
        \<and> (\<exists>st. fade_out_starts (cmd_af (ffmpeg_command Config video_path w path_w)) = [st]
               \<and> 124 / 5 \<le> st \<and> st < 149 / 5))"
proof -
  have a: "fade_out_starts (cmd_af (ffmpeg_command Config vp s op))
      = [duration s - AUDIO_FADE_DURATION Config]" for vp s op
    by (simp add: ffmpeg_command_def)
  have f: "AUDIO_FADE_DURATION Config = 1 / 5" "CLIP_DURATION Config = 30"
    "MIN_CLIP_DURATION Config = 25" by (simp_all add: Config_def)
  show ?thesis
    using plan_window_shape [of w Config total_duration]
      plan_window_shape [of v Config total_duration]
    by (auto simp: a f)
qed

theorem fade_out_anchored_per_window_witness:
  "\<lparr>start_time = 75, end_time = 100, duration = 25, clip_number = 4, is_final_clip = True\<rparr>
      \<in> set (calculate_all_clip_segments Config 100)
   \<and> \<lparr>start_time = 0, end_time = 30, duration = 30, clip_number = 1, is_final_clip = False\<rparr>
      \<in> set (calculate_all_clip_segments Config 100)
   \<and> fade_out_starts (cmd_af (ffmpeg_command Config ''in.mp4''
        \<lparr>start_time = 0, end_time = 30, duration = 30, clip_number = 1, is_final_clip = False\<rparr>
        ''out_001.mp4'')) = [149 / 5]
   \<and> fade_out_starts (cmd_af (ffmpeg_command Config ''in.mp4''
        \<lparr>start_time = 75, end_time = 100, duration = 25, clip_number = 4, is_final_clip = True\<rparr>
        ''out_004.mp4'')) = [124 / 5]"
proof -
  let ?w = "\<lparr>start_time = 75, end_time = 100, duration = 25, clip_number = 4, is_final_clip = True\<rparr>"
  let ?v = "\<lparr>start_time = 0, end_time = 30, duration = 30, clip_number = 1, is_final_clip = False\<rparr>"
  have w: "?w \<in> set (calculate_all_clip_segments Config 100)" by (simp add: plan_100)
  have v: "?v \<in> set (calculate_all_clip_segments Config 100)" by (simp add: plan_100)
  have f: "AUDIO_FADE_DURATION Config = 1 / 5" by (simp add: Config_def)
  show ?thesis
    using w v f
      fade_out_anchored_per_window [where video_path = "''in.mp4''" and seg = ?w
        and output_path = "''out_004.mp4''" and w = ?w and v = ?v and total_duration = 100
        and path_v = "''out_001.mp4''" and path_w = "''out_004.mp4''"]
    by simp
qed

section \<open>Properties of the progress record\<close>

text \<open>
  C8, as the code has it. Every call of \<^verbatim>\<open>update_progress\<close> overwrites all six fields:
  the record it leaves is made of its arguments and an empty last error, whatever the
  record was before. The exception handler of \<^verbatim>\<open>generate_shorts\<close> writes the status and
  the last error only; the message, the percentage and the two counters stay as the last
  milestone left them.
\<close>

theorem update_progress_overwrites_all:
  "update_progress st msg pct tot cur s =
     \<lparr> status = st, message = msg, progress = pct, total_clips = tot, current_clip = cur,
       error = None \<rparr>
   \<and> update_progress st msg pct tot cur s = update_progress st msg pct tot cur s'
   \<and> status (generate_shorts_except e s) = ''error''
   \<and> error (generate_shorts_except e s) = Some e
   \<and> message (generate_shorts_except e s) = message s
   \<and> progress (generate_shorts_except e s) = progress s
   \<and> total_clips (generate_shorts_except e s) = total_clips s
   \<and> current_clip (generate_shorts_except e s) = current_clip s"
  by (simp add: update_progress_def generate_shorts_except_def)

text \<open>
  Against C8 as stated: when the download raises, the record read afterwards carries the
  new status and error beside the message and the percentage of the milestone before; and
  the handler applied to two different records leaves two different records.
\<close>

theorem partial_patch_counterexample:
  "generate_shorts_download_phase [] (Some ''boom'') progress_state_init =
     \<lparr> status = ''error'', message = ''Downloading YouTube video...'', progress = 10,
       total_clips = 0, current_clip = 0, error = Some ''boom'' \<rparr>
   \<and> generate_shorts_except ''boom''
        (update_progress ''processing'' ''Generating clip 3/4...'' 70 4 3 progress_state_init)
     \<noteq> generate_shorts_except ''boom'' progress_state_init"
  by (simp add: generate_shorts_download_phase_def update_progress_def
        generate_shorts_except_def progress_state_init_def)

section \<open>The estimate and the plan\<close>

text \<open>
  C9. There is a total duration for which the number of clips estimated before encoding
  differs from the length of the plan: for 40 seconds the estimate is 2, the plan has one
  window, and no final window, the 15 seconds left from second 25 being discarded.
\<close>

theorem estimate_differs_from_plan:
  "\<exists>total_duration n. 0 \<le> total_duration
     \<and> expected_clips Config total_duration = Some n
     \<and> n \<noteq> int (length (calculate_all_clip_segments Config total_duration))
     \<and> filter is_final_clip (calculate_all_clip_segments Config total_duration) = []"
proof -
  have p: "calculate_all_clip_segments Config 40 =
     [\<lparr>start_time = 0, end_time = 30, duration = 30, clip_number = 1, is_final_clip = False\<rparr>]"
    by code_simp
  have e: "expected_clips Config 40 = Some 2"
    by code_simp
  show ?thesis
    by (rule exI [of _ 40], rule exI [of _ 2]) (simp add: p e)
qed

text \<open>
  C10. In a plan computed with the source's parameters a window marked final ends at the
  total duration and is shorter than the clip duration; a window that ends at the total
  duration and has the full clip duration is not marked final.
\<close>

theorem final_only_when_truncated:
  "w \<in> set (calculate_all_clip_segments Config total_duration) \<Longrightarrow>
     (is_final_clip w \<longrightarrow>
        end_time w = total_duration \<and> duration w = total_duration - start_time w
      \<and> duration w < CLIP_DURATION Config)
   \<and> (end_time w = total_duration \<and> duration w = CLIP_DURATION Config \<longrightarrow> \<not> is_final_clip w)"
  by (auto dest: plan_window_shape)

theorem final_only_when_truncated_witness:
  "\<lparr>start_time = 25, end_time = 55, duration = 30, clip_number = 2, is_final_clip = False\<rparr>
      \<in> set (calculate_all_clip_segments Config 55)
   \<and> \<lparr>start_time = 75, end_time = 100, duration = 25, clip_number = 4, is_final_clip = True\<rparr>
      \<in> set (calculate_all_clip_segments Config 100)
   \<and> end_time \<lparr>start_time = 25, end_time = 55, duration = 30, clip_number = 2,
                 is_final_clip = False\<rparr> = 55
   \<and> duration \<lparr>start_time = 25, end_time = 55, duration = 30, clip_number = 2,
                 is_final_clip = False\<rparr> = CLIP_DURATION Config
   \<and> \<not> is_final_clip \<lparr>start_time = 25, end_time = 55, duration = 30, clip_number = 2,
                 is_final_clip = False\<rparr>
   \<and> duration \<lparr>start_time = 75, end_time = 100, duration = 25, clip_number = 4,
                 is_final_clip = True\<rparr> < CLIP_DURATION Config"
proof -
  let ?a = "\<lparr>start_time = 25, end_time = 55, duration = 30, clip_number = 2, is_final_clip = False\<rparr>"
  let ?b = "\<lparr>start_time = 75, end_time = 100, duration = 25, clip_number = 4, is_final_clip = True\<rparr>"
  have a: "?a \<in> set (calculate_all_clip_segments Config 55)"
    by (simp add: plan_55)
  have b: "?b \<in> set (calculate_all_clip_segments Config 100)"
    by (simp add: plan_100)
  show ?thesis
    using a b final_only_when_truncated [OF a] final_only_when_truncated [OF b]
    by (simp add: Config_def)
qed

end
